theory Spec2Isabelle
  imports Complex_Main "HOL-Library.Sublist"
begin

section \<open>The transit search stage (search.py)\<close>

text \<open>
  The search stage takes a light curve, drops its non-finite samples, builds a grid of
  candidate periods and a parallel grid of transit durations, hands both to the Box Least
  Squares (BLS) primitive of astropy and picks the period of greatest power.

  Numbers. A sample value or a power value is a float that may be NaN or infinite; only
  that, and the order of the values, matters to the code that handles them, so such a
  value is an \<open>fl\<close>: a finite number, an infinity or NaN, compared as IEEE 754 compares.
  The configuration (periods, the duration fraction) is taken to be finite and the grid
  arithmetic is exact: periods and durations are \<open>real\<close>, and rounding is not modelled.
\<close>

subsection \<open>Floats\<close>

datatype fl = Fin real | PInf | NInf | NaN

fun isfinite :: "fl \<Rightarrow> bool" where
  "isfinite (Fin _) = True"
| "isfinite _ = False"

fun isnan :: "fl \<Rightarrow> bool" where
  "isnan NaN = True"
| "isnan _ = False"

text \<open>The comparison \<open>x <= y\<close> of two floats: false as soon as one of them is NaN.\<close>

fun fl_le :: "fl \<Rightarrow> fl \<Rightarrow> bool" where
  "fl_le NaN _ = False"
| "fl_le _ NaN = False"
| "fl_le NInf _ = True"
| "fl_le _ PInf = True"
| "fl_le (Fin a) (Fin b) = (a \<le> b)"
| "fl_le PInf _ = False"
| "fl_le _ NInf = False"

subsection \<open>Exceptions and effects\<close>

text \<open>
  A Python exception is its class name and its message. A function that may raise returns
  \<open>pyexc + 'a\<close>, with \<open>Inl\<close> for the exception.
\<close>

datatype pyexc = PyExc (exc_class: string) (exc_msg: string)

text \<open>
  A light curve is a table with one row per sample; \<open>lc.time.value\<close> and
  \<open>lc.flux.value\<close> are its two columns, of one length by construction.
\<close>

type_synonym lightcurve = "(fl \<times> fl) list"

definition time_value :: "lightcurve \<Rightarrow> fl list" where
  "time_value lc = map fst lc"

definition flux_value :: "lightcurve \<Rightarrow> fl list" where
  "flux_value lc = map snd lc"

text \<open>The object that \<open>bls.power\<close> returns; the search stage reads its \<open>power\<close> only.\<close>

record bls_result =
  power :: "fl list"

text \<open>
  The BLS primitive, \<open>BoxLeastSquares(t, y).power(periods, durations)\<close>, is astropy's:
  it is a parameter of the model, a function that returns a result or raises.
\<close>

type_synonym bls_primitive =
  "fl list \<Rightarrow> fl list \<Rightarrow> real list \<Rightarrow> real list \<Rightarrow> pyexc + bls_result"

text \<open>
  A path is the string given on the command line, or such a path with its suffix replaced
  (\<open>Path.with_suffix\<close>). A file holds the periodogram table (the rows of the data frame)
  or the summary (best period and best power).
\<close>

datatype path = Path string | WithSuffix path string

datatype artifact = CsvTable "(real \<times> fl) list" | JsonSummary real fl

text \<open>
  The effects of the stage: the calls made to the BLS primitive, each with its four
  arguments, and the files written, both in the order in which they happen.
\<close>

record world =
  bls_invocations :: "(fl list \<times> fl list \<times> real list \<times> real list) list"
  written :: "(path \<times> artifact) list"

subsection \<open>The numpy functions the stage calls\<close>

text \<open>Indexing an array with a boolean mask of its length keeps the entries marked True.\<close>

definition bool_index :: "'a list \<Rightarrow> bool list \<Rightarrow> 'a list" where
  "bool_index a msk = map fst (filter snd (zip a msk))"

text \<open>
  \<open>np.linspace(start, stop, num)\<close>: a negative \<open>num\<close> raises; otherwise the
  \<open>num\<close> values \<open>i * step + start\<close> with \<open>step = (stop - start) / (num - 1)\<close>, the last of
  which is then overwritten with \<open>stop\<close> when there are at least two.
\<close>

definition linspace :: "real \<Rightarrow> real \<Rightarrow> int \<Rightarrow> pyexc + real list" where
  "linspace start stop num =
     (if num < 0 then Inl (PyExc ''ValueError'' ''Number of samples must be non-negative'')
      else
        let n = nat num;
            dv = num - 1;
            delta = stop - start;
            y0 = map real [0..<n];
            y1 = (if dv > 0
                  then (let step = delta / real_of_int dv
                        in if step = 0 then map (\<lambda>v. v / real_of_int dv * delta) y0
                           else map (\<lambda>v. v * step) y0)
                  else map (\<lambda>v. v * delta) y0);
            y2 = map (\<lambda>v. v + start) y1
        in Inr (if num > 1 then y2[n - 1 := stop] else y2))"

text \<open>\<open>np.clip(a, a_min, a_max)\<close> is \<open>minimum(a_max, maximum(a, a_min))\<close>, entry by entry.\<close>

definition clip :: "real list \<Rightarrow> real \<Rightarrow> real \<Rightarrow> real list" where
  "clip a a_min a_max = map (\<lambda>x. min a_max (max x a_min)) a"

text \<open>
  \<open>np.argmax\<close> on floats: the scan keeps the first entry and replaces it by each later
  entry \<open>x\<close> for which \<open>x <= current\<close> is false; it stops at the first NaN.
\<close>

fun argmax_scan :: "fl \<Rightarrow> nat \<Rightarrow> nat \<Rightarrow> fl list \<Rightarrow> nat" where
  "argmax_scan mp max_ind i [] = max_ind"
| "argmax_scan mp max_ind i (x # xs) =
     (if \<not> fl_le x mp
      then (if isnan x then i else argmax_scan x i (Suc i) xs)
      else argmax_scan mp max_ind (Suc i) xs)"

definition argmax :: "fl list \<Rightarrow> pyexc + nat" where
  "argmax a =
     (case a of
        [] \<Rightarrow> Inl (PyExc ''ValueError'' ''attempt to get argmax of an empty sequence'')
      | x # xs \<Rightarrow> Inr (if isnan x then 0 else argmax_scan x 0 1 xs))"

text \<open>
  \<open>np.nanargmax\<close>: every NaN is replaced by \<open>-inf\<close>; an array that is not empty and was
  NaN everywhere raises; otherwise the answer is \<open>argmax\<close> of the array after replacement.
\<close>

definition replace_nan :: "fl list \<Rightarrow> fl \<Rightarrow> fl list \<times> bool list" where
  "replace_nan a v = (map (\<lambda>x. if isnan x then v else x) a, map isnan a)"

definition nanargmax :: "fl list \<Rightarrow> pyexc + nat" where
  "nanargmax a =
     (let (a', msk) = replace_nan a NInf
      in if msk \<noteq> [] \<and> list_all id msk
         then Inl (PyExc ''ValueError'' ''All-NaN slice encountered'')
         else argmax a')"

subsection \<open>search.py\<close>

text \<open>
  \<open>period_to_duration_guess\<close>: the duration is a fraction of the period, clipped to
  0.005 and 0.5 days.
\<close>

definition period_to_duration_guess :: "real list \<Rightarrow> real \<Rightarrow> real list" where
  "period_to_duration_guess periods fraction =
     (let durations = map (\<lambda>p. fraction * p) periods
      in clip durations (5 / 1000) (5 / 10))"

text \<open>
  The first lines of \<open>run_bls\<close> (31 to 36): the two columns, the mask of the rows whose
  time and flux are both finite, and the two columns indexed by the mask.
\<close>

definition run_bls_filter :: "lightcurve \<Rightarrow> fl list \<times> fl list" where
  "run_bls_filter lc =
     (let t = time_value lc;
          y = flux_value lc;
          msk = map2 (\<and>) (map isfinite t) (map isfinite y)
      in (bool_index t msk, bool_index y msk))"

text \<open>
  \<open>run_bls\<close>: fewer than ten valid points raise; otherwise the period grid, the duration
  grid and one call of the BLS primitive, whose exception, if it raises, is not caught.
\<close>

definition run_bls ::
  "bls_primitive \<Rightarrow> lightcurve \<Rightarrow> real \<Rightarrow> real \<Rightarrow> int \<Rightarrow> real \<Rightarrow> world
   \<Rightarrow> (pyexc + (real list \<times> real list \<times> bls_result)) \<times> world" where
  "run_bls bls lc min_period max_period n_periods duration_fraction w =
     (let (t, y) = run_bls_filter lc
      in if length t < 10
         then (Inl (PyExc ''ValueError'' ''Not enough valid points for BLS''), w)
         else
           (case linspace min_period max_period n_periods of
              Inl e \<Rightarrow> (Inl e, w)
            | Inr periods \<Rightarrow>
                let durations = period_to_duration_guess periods duration_fraction;
                    w' = w\<lparr>bls_invocations :=
                             bls_invocations w @ [(t, y, periods, durations)]\<rparr>
                in (case bls t y periods durations of
                      Inl e \<Rightarrow> (Inl e, w')
                    | Inr result \<Rightarrow> (Inr (periods, durations, result), w'))))"

text \<open>
  \<open>save_bls_results\<close>: the data frame needs two columns of one length; its rows are
  written to the file.
\<close>

definition save_bls_results ::
  "real list \<Rightarrow> fl list \<Rightarrow> path \<Rightarrow> world \<Rightarrow> (pyexc + unit) \<times> world" where
  "save_bls_results periods pw out_csv w =
     (if length periods \<noteq> length pw
      then (Inl (PyExc ''ValueError'' ''All arrays must be of the same length''), w)
      else (Inr (), w\<lparr>written := written w @ [(out_csv, CsvTable (zip periods pw))]\<rparr>))"

text \<open>
  \<open>pick_best\<close>: the index that \<open>np.nanargmax\<close> gives for the powers, and the period and
  the power at that index; an index beyond the periods raises.
\<close>

definition pick_best :: "'a list \<Rightarrow> fl list \<Rightarrow> pyexc + ('a \<times> fl)" where
  "pick_best periods pw =
     (case nanargmax pw of
        Inl e \<Rightarrow> Inl e
      | Inr idx \<Rightarrow>
          if idx < length periods then Inr (periods ! idx, pw ! idx)
          else Inl (PyExc ''IndexError'' ''index is out of bounds''))"

text \<open>\<open>write_json\<close> (utils.py) writes the summary.\<close>

definition write_json :: "path \<Rightarrow> real \<times> fl \<Rightarrow> world \<Rightarrow> world" where
  "write_json p summary w =
     w\<lparr>written := written w @ [(p, JsonSummary (fst summary) (snd summary))]\<rparr>"

text \<open>
  \<open>main\<close>, after the command line is parsed: the light curve is read (by lightkurve, a
  parameter here), searched with the default duration fraction, the periodogram is
  saved, the best candidate is picked and the summary is written.
\<close>

record args =
  input :: string
  min_period :: real
  max_period :: real
  n_periods :: int
  out :: string

definition main ::
  "(string \<Rightarrow> pyexc + lightcurve) \<Rightarrow> bls_primitive \<Rightarrow> args \<Rightarrow> world
   \<Rightarrow> (pyexc + unit) \<times> world" where
  "main read_lc bls a w =
     (case read_lc (input a) of
        Inl e \<Rightarrow> (Inl e, w)
      | Inr lc \<Rightarrow>
          (case run_bls bls lc (min_period a) (max_period a) (n_periods a) (5 / 100) w of
             (Inl e, w1) \<Rightarrow> (Inl e, w1)
           | (Inr (periods, durations, result), w1) \<Rightarrow>
               (case save_bls_results periods (power result) (Path (out a)) w1 of
                  (Inl e, w2) \<Rightarrow> (Inl e, w2)
                | (Inr _, w2) \<Rightarrow>
                    (case pick_best periods (power result) of
                       Inl e \<Rightarrow> (Inl e, w2)
                     | Inr (best_period, best_power) \<Rightarrow>
                         (Inr (), write_json (WithSuffix (Path (out a)) ''.summary.json'')
                                    (best_period, best_power) w2)))))"


subsection \<open>Notions used to state the properties\<close>

text \<open>
  A sample is valid when its time and its flux are both finite; it is a NaN sample when
  one of the two is NaN.
\<close>

definition finite_sample :: "fl \<times> fl \<Rightarrow> bool" where
  "finite_sample s = (isfinite (fst s) \<and> isfinite (snd s))"

definition nan_sample :: "fl \<times> fl \<Rightarrow> bool" where
  "nan_sample s = (isnan (fst s) \<or> isnan (snd s))"

text \<open>
  Clamping as the specification writes it: a value below the range becomes the lower
  bound, a value above it the upper bound.
\<close>

definition clamp_spec :: "real \<Rightarrow> real \<Rightarrow> real \<Rightarrow> real" where
  "clamp_spec x lo hi = (if x < lo then lo else if hi < x then hi else x)"

text \<open>
  \<open>first_max a r\<close>: every entry of \<open>a\<close> is at most \<open>a ! r\<close>, and no entry before \<open>r\<close>
  reaches it.
\<close>

definition first_max :: "fl list \<Rightarrow> nat \<Rightarrow> bool" where
  "first_max a r =
     (r < length a \<and> list_all (\<lambda>x. fl_le x (a ! r)) a \<and>
      list_all (\<lambda>x. \<not> fl_le (a ! r) x) (take r a))"

text \<open>
  \<open>pickBest\<close> as the specification words it: an empty input is an \<open>EmptyResultError\<close>,
  an input with no finite power an \<open>AllNonFiniteError\<close>; otherwise the answer is the
  first index of greatest power among the indices of finite power.
\<close>

definition pickBest_spec :: "'a list \<Rightarrow> fl list \<Rightarrow> pyexc + ('a \<times> fl)" where
  "pickBest_spec periods pw =
     (if pw = [] then Inl (PyExc ''EmptyResultError'' [])
      else
        (case filter (\<lambda>i. isfinite (pw ! i)) [0..<length pw] of
           [] \<Rightarrow> Inl (PyExc ''AllNonFiniteError'' [])
         | i # rest \<Rightarrow>
             let b = fold (\<lambda>j b. if fl_le (pw ! j) (pw ! b) then b else j) rest i
             in Inr (periods ! b, pw ! b)))"

subsection \<open>Concrete inputs\<close>

text \<open>
  Ten valid samples; five samples of which two are valid; a BLS primitive that answers
  with the periods as powers, and one that raises; a world in which nothing has happened
  yet; a command line.
\<close>

definition ten_samples :: lightcurve where
  "ten_samples =
     [(Fin 0, Fin 1), (Fin 1, Fin 1), (Fin 2, Fin 1), (Fin 3, Fin 1), (Fin 4, Fin 1),
      (Fin 5, Fin 1), (Fin 6, Fin 1), (Fin 7, Fin 1), (Fin 8, Fin 1), (Fin 9, Fin 1)]"

definition gappy_samples :: lightcurve where
  "gappy_samples = [(Fin 0, Fin 1), (NaN, Fin 1), (Fin 2, NaN), (Fin 3, PInf), (Fin 4, Fin 1)]"

definition bls_echo :: bls_primitive where
  "bls_echo t y periods durations = Inr \<lparr>power = map Fin periods\<rparr>"

definition bls_failing :: bls_primitive where
  "bls_failing t y periods durations = Inl (PyExc ''ValueError'' ''period must be positive'')"

definition no_effects :: world where
  "no_effects = \<lparr>bls_invocations = [], written = []\<rparr>"

definition example_args :: args where
  "example_args =
     \<lparr>input = ''lc.fits'', min_period = 5 / 10, max_period = 10, n_periods = 3,
      out = ''bls_results.csv''\<rparr>"

definition read_gappy :: "string \<Rightarrow> pyexc + lightcurve" where
  "read_gappy name = Inr gappy_samples"

section \<open>Properties\<close>

subsection \<open>The finiteness filter\<close>

lemma run_bls_filter_eq:
  "run_bls_filter lc = (map fst (filter finite_sample lc), map snd (filter finite_sample lc))"
  by (induction lc)
     (simp_all add: run_bls_filter_def time_value_def flux_value_def bool_index_def Let_def
        finite_sample_def)

lemma zip_run_bls_filter:
  "zip (fst (run_bls_filter lc)) (snd (run_bls_filter lc)) = filter finite_sample lc"
  by (simp add: run_bls_filter_eq zip_map_fst_snd)

lemma run_bls_filter_filter:
  assumes "\<And>s. finite_sample s \<Longrightarrow> keep s"
  shows "run_bls_filter (filter keep lc) = run_bls_filter lc"
proof -
  have "filter finite_sample (filter keep lc) = filter finite_sample lc"
    using assms by (induction lc) auto
  then show ?thesis by (simp add: run_bls_filter_eq)
qed

lemma finite_not_nan: "finite_sample s \<Longrightarrow> \<not> nan_sample s"
  by (cases s; cases "fst s"; cases "snd s") (simp_all add: finite_sample_def nan_sample_def)

lemma run_bls_few:
  assumes "length (filter finite_sample lc) < 10"
  shows "run_bls bls lc a b n f w =
           (Inl (PyExc ''ValueError'' ''Not enough valid points for BLS''), w)"
  using assms by (simp add: run_bls_def run_bls_filter_eq)

lemma run_bls_enough:
  assumes "10 \<le> length (filter finite_sample lc)" and "linspace a b n = Inr ps"
  shows "run_bls bls lc a b n f w =
           ((case bls (fst (run_bls_filter lc)) (snd (run_bls_filter lc)) ps
                    (period_to_duration_guess ps f) of
               Inl e \<Rightarrow> Inl e
             | Inr r \<Rightarrow> Inr (ps, period_to_duration_guess ps f, r)),
            w\<lparr>bls_invocations := bls_invocations w @
                 [(fst (run_bls_filter lc), snd (run_bls_filter lc), ps,
                   period_to_duration_guess ps f)]\<rparr>)"
  using assms by (simp add: run_bls_def run_bls_filter_eq Let_def split: sum.splits)

lemma filter_ten_samples: "filter finite_sample ten_samples = ten_samples"
  by (simp add: ten_samples_def finite_sample_def)

lemma filter_gappy_samples:
  "filter finite_sample gappy_samples = [(Fin 0, Fin 1), (Fin 4, Fin 1)]"
  by (simp add: gappy_samples_def finite_sample_def)

lemma run_bls_filter_ten:
  "run_bls_filter ten_samples = (map fst ten_samples, map snd ten_samples)"
  by (simp add: run_bls_filter_eq filter_ten_samples)

lemma length_ten_samples: "length ten_samples = 10"
  by (simp add: ten_samples_def)

lemma run_bls_ten:
  assumes "linspace a b n = Inr ps"
  shows "fst (run_bls bls ten_samples a b n f w) =
           (case bls (map fst ten_samples) (map snd ten_samples) ps
                   (period_to_duration_guess ps f) of
              Inl e \<Rightarrow> Inl e
            | Inr r \<Rightarrow> Inr (ps, period_to_duration_guess ps f, r))"
proof -
  have "10 \<le> length (filter finite_sample ten_samples)"
    by (simp add: filter_ten_samples length_ten_samples)
  then show ?thesis
    by (simp add: run_bls_enough [OF _ assms] run_bls_filter_ten)
qed

text \<open>
  C10. The filter of \<open>run_bls\<close> drops a sample as a whole: the filtered times and fluxes
  have one length, paired up they are exactly the valid samples of the light curve in
  their original order (a subsequence of it), and every pair kept has both parts finite.
\<close>

theorem run_bls_filter_aligned:
  "length (fst (run_bls_filter lc)) = length (snd (run_bls_filter lc)) \<and>
   zip (fst (run_bls_filter lc)) (snd (run_bls_filter lc)) = filter finite_sample lc \<and>
   subseq (zip (fst (run_bls_filter lc)) (snd (run_bls_filter lc))) lc \<and>
   list_all finite_sample (zip (fst (run_bls_filter lc)) (snd (run_bls_filter lc)))"
  by (simp add: zip_run_bls_filter list_all_iff) (simp add: run_bls_filter_eq)

theorem run_bls_filter_aligned_witness:
  "fst (run_bls_filter gappy_samples) = [Fin 0, Fin 4] \<and>
   snd (run_bls_filter gappy_samples) = [Fin 1, Fin 1] \<and>
   zip [Fin 0, Fin 4] [Fin 1, Fin 1] = filter finite_sample gappy_samples \<and>
   subseq (zip [Fin 0, Fin 4] [Fin 1, Fin 1]) gappy_samples"
proof -
  have f: "fst (run_bls_filter gappy_samples) = [Fin 0, Fin 4]"
    and s: "snd (run_bls_filter gappy_samples) = [Fin 1, Fin 1]"
    by (simp_all add: run_bls_filter_eq filter_gappy_samples)
  show ?thesis using run_bls_filter_aligned [of gappy_samples] by (simp add: f s)
qed

text \<open>
  C4. When fewer than ten samples are valid, \<open>run_bls\<close> raises the error
  "Not enough valid points for BLS" (the specification's InsufficientDataError; a
  ValueError in the code) and leaves the world as it was: the BLS primitive has not been
  called and nothing is written. \<open>main\<close> then stops with the same error, also without
  writing anything.
\<close>

theorem run_bls_insufficient_data:
  assumes "length (filter finite_sample lc) < 10"
  shows "run_bls bls lc a b n f w =
           (Inl (PyExc ''ValueError'' ''Not enough valid points for BLS''), w) \<and>
         (read_lc (input ar) = Inr lc \<longrightarrow>
            main read_lc bls ar w =
              (Inl (PyExc ''ValueError'' ''Not enough valid points for BLS''), w))"
  using assms by (simp add: main_def run_bls_few)

theorem run_bls_insufficient_data_witness:
  "length (filter finite_sample gappy_samples) < 10 \<and>
   run_bls bls_echo gappy_samples (5 / 10) 10 3 (5 / 100) no_effects =
     (Inl (PyExc ''ValueError'' ''Not enough valid points for BLS''), no_effects) \<and>
   read_gappy (input example_args) = Inr gappy_samples \<and>
   main read_gappy bls_echo example_args no_effects =
     (Inl (PyExc ''ValueError'' ''Not enough valid points for BLS''), no_effects)"
  using run_bls_insufficient_data [of gappy_samples bls_echo "5 / 10" 10 3 "5 / 100" no_effects read_gappy example_args]
  by (simp add: filter_gappy_samples read_gappy_def)

text \<open>
  C6. Searching a light curve gives the same result, and the same effects, as searching
  it with its NaN samples removed beforehand, or with all its non-finite samples removed
  beforehand.
\<close>

theorem run_bls_prefiltered:
  "run_bls bls (filter (\<lambda>s. \<not> nan_sample s) lc) a b n f w = run_bls bls lc a b n f w \<and>
   run_bls bls (filter finite_sample lc) a b n f w = run_bls bls lc a b n f w"
proof -
  have 1: "run_bls_filter (filter (\<lambda>s. \<not> nan_sample s) lc) = run_bls_filter lc"
    by (rule run_bls_filter_filter) (rule finite_not_nan)
  have 2: "run_bls_filter (filter finite_sample lc) = run_bls_filter lc"
    by (rule run_bls_filter_filter)
  show ?thesis by (simp add: run_bls_def 1 2)
qed

theorem run_bls_prefiltered_witness:
  "filter (\<lambda>s. \<not> nan_sample s) gappy_samples = [(Fin 0, Fin 1), (Fin 3, PInf), (Fin 4, Fin 1)] \<and>
   run_bls bls_echo [(Fin 0, Fin 1), (Fin 3, PInf), (Fin 4, Fin 1)] (5 / 10) 10 3 (5 / 100)
       no_effects =
     run_bls bls_echo gappy_samples (5 / 10) 10 3 (5 / 100) no_effects"
  using run_bls_prefiltered [of bls_echo gappy_samples "5 / 10" 10 3 "5 / 100" no_effects]
  by (simp add: gappy_samples_def nan_sample_def)

subsection \<open>The search grids\<close>

lemma linspace_negative:
  "n < 0 \<Longrightarrow> linspace a b n = Inl (PyExc ''ValueError'' ''Number of samples must be non-negative'')"
  by (simp add: linspace_def)

lemma linspace_length:
  assumes "0 \<le> n"
  shows "\<exists>ps. linspace a b n = Inr ps \<and> length ps = nat n"
  using assms by (simp add: linspace_def Let_def)

lemma linspace_grid:
  assumes "2 \<le> n"
  shows "linspace a b n =
           Inr (map (\<lambda>i. a + real i * ((b - a) / real_of_int (n - 1))) [0..<nat n])"
proof -
  let ?g = "\<lambda>i. a + real i * ((b - a) / real_of_int (n - 1))"
  let ?y = "map (\<lambda>v. v + a) (map (\<lambda>v. v * ((b - a) / real_of_int (n - 1))) (map real [0..<nat n]))"
  have n1: "real_of_int (n - 1) \<noteq> 0" using assms by simp
  have y: "?y = map ?g [0..<nat n]" by (simp add: add.commute)
  have last: "?g (nat n - 1) = b"
  proof -
    have "real (nat n - 1) = real_of_int (n - 1)" using assms by (simp add: of_nat_diff)
    then show ?thesis using n1 by simp
  qed
  have upd: "(map ?g [0..<nat n])[nat n - 1 := b] = map ?g [0..<nat n]"
  proof (rule nth_equalityI)
    show "length ((map ?g [0..<nat n])[nat n - 1 := b]) = length (map ?g [0..<nat n])" by simp
  next
    fix i assume "i < length ((map ?g [0..<nat n])[nat n - 1 := b])"
    then have i: "i < nat n" by simp
    show "(map ?g [0..<nat n])[nat n - 1 := b] ! i = map ?g [0..<nat n] ! i"
    proof (cases "i = nat n - 1")
      case True
      then show ?thesis using i last by simp
    next
      case False
      then show ?thesis using i by simp
    qed
  qed
  show ?thesis
  proof (cases "b - a = 0")
    case True
    then have "linspace a b n = Inr ((map (\<lambda>i. a) [0..<nat n])[nat n - 1 := b])"
      using assms by (simp add: linspace_def Let_def comp_def)
    moreover have "map (\<lambda>i. a) [0..<nat n] = map ?g [0..<nat n]" using True by simp
    ultimately show ?thesis using upd by simp
  next
    case False
    then have "linspace a b n = Inr (?y[nat n - 1 := b])"
      using assms n1 by (simp add: linspace_def Let_def)
    then have "linspace a b n = Inr ((map ?g [0..<nat n])[nat n - 1 := b])"
      by (simp only: y)
    then show ?thesis by (simp only: upd)
  qed
qed

lemma linspace_nth:
  assumes "2 \<le> n" and "linspace a b n = Inr ps" and "i < nat n"
  shows "ps ! i = a + real i * ((b - a) / real_of_int (n - 1))"
proof -
  have "ps = map (\<lambda>i. a + real i * ((b - a) / real_of_int (n - 1))) [0..<nat n]"
    using assms(2) linspace_grid [OF assms(1), of a b] by simp
  then show ?thesis using assms(3) by simp
qed

lemma linspace_ge_start:
  assumes "2 \<le> n" and "a < b" and "linspace a b n = Inr ps" and "i < length ps"
  shows "a \<le> ps ! i"
proof -
  have len: "length ps = nat n"
    using assms(1,3) linspace_length [of n a b] by auto
  have "0 \<le> real i * ((b - a) / real_of_int (n - 1))" using assms(1,2) by simp
  moreover have "ps ! i = a + real i * ((b - a) / real_of_int (n - 1))"
    using assms(1,3,4) len by (simp add: linspace_nth)
  ultimately show ?thesis by simp
qed

lemma duration_guess_nth:
  assumes "i < length ps"
  shows "period_to_duration_guess ps f ! i = min (5 / 10) (max (f * ps ! i) (5 / 1000))"
  using assms by (simp add: period_to_duration_guess_def clip_def)

lemma length_duration_guess: "length (period_to_duration_guess ps f) = length ps"
  by (simp add: period_to_duration_guess_def clip_def)

text \<open>
  C1. For a valid configuration (\<open>0 < min_period < max_period\<close>, at least two periods) and
  a light curve with at least ten valid samples, \<open>run_bls\<close> builds a period grid of exactly
  \<open>n_periods\<close> values, uniformly spaced, that starts at \<open>min_period\<close> and ends at
  \<open>max_period\<close>; it hands that grid to the BLS primitive and returns it with the result.
\<close>

theorem run_bls_period_grid:
  assumes "0 < a" and "a < b" and "2 \<le> n" and "10 \<le> length (filter finite_sample lc)"
  shows "\<exists>ps ds. length ps = nat n \<and> length ds = nat n \<and> ps ! 0 = a \<and> ps ! (nat n - 1) = b \<and>
           (\<forall>i < nat n. ps ! i = a + real i * ((b - a) / real_of_int (n - 1))) \<and>
           fst (run_bls bls lc a b n f w) =
             (case bls (fst (run_bls_filter lc)) (snd (run_bls_filter lc)) ps ds of
                Inl e \<Rightarrow> Inl e
              | Inr r \<Rightarrow> Inr (ps, ds, r))"
proof -
  let ?ps = "map (\<lambda>i. a + real i * ((b - a) / real_of_int (n - 1))) [0..<nat n]"
  have g: "linspace a b n = Inr ?ps" using assms(3) by (rule linspace_grid)
  have len: "length ?ps = nat n" by simp
  have first: "?ps ! 0 = a" using assms(3) by simp
  have "real (nat n - 1) = real_of_int (n - 1)" using assms(3) by (simp add: of_nat_diff)
  then have last: "?ps ! (nat n - 1) = b" using assms(3) by simp
  have nth: "\<forall>i < nat n. ?ps ! i = a + real i * ((b - a) / real_of_int (n - 1))" by simp
  have run: "fst (run_bls bls lc a b n f w) =
             (case bls (fst (run_bls_filter lc)) (snd (run_bls_filter lc)) ?ps
                     (period_to_duration_guess ?ps f) of
                Inl e \<Rightarrow> Inl e
              | Inr r \<Rightarrow> Inr (?ps, period_to_duration_guess ?ps f, r))"
    by (simp add: run_bls_enough [OF assms(4) g])
  have lend: "length (period_to_duration_guess ?ps f) = nat n"
    by (simp add: length_duration_guess)
  show ?thesis using len lend first last nth run by blast
qed

theorem run_bls_period_grid_witness:
  "0 < (5 / 10 :: real) \<and> (5 / 10 :: real) < 10 \<and> (2 :: int) \<le> 3 \<and>
   10 \<le> length (filter finite_sample ten_samples) \<and>
   fst (run_bls bls_echo ten_samples (5 / 10) 10 3 (5 / 100) no_effects) =
     Inr ([5 / 10, 21 / 4, 10], [25 / 1000, 105 / 400, 5 / 10],
          \<lparr>power = [Fin (5 / 10), Fin (21 / 4), Fin 10]\<rparr>)"
proof -
  have g: "linspace (5 / 10) 10 3 = Inr [5 / 10, 21 / 4, 10]"
    by (simp add: linspace_def upt_rec)
  show ?thesis
    using g run_bls_period_grid [of "5 / 10" 10 3 ten_samples bls_echo "5 / 100" no_effects]
    by (simp add: run_bls_ten filter_ten_samples length_ten_samples
        period_to_duration_guess_def clip_def bls_echo_def)
qed

text \<open>
  C2. The duration grid has the length of the period grid, and its entry at each index is
  the clamp of \<open>fraction * period\<close> to 0.005 and 0.5 days: 0.005 when the product is
  below that, 0.5 when it is above.
\<close>

theorem duration_guess_clamp:
  "length (period_to_duration_guess periods f) = length periods \<and>
   (\<forall>i < length periods.
      period_to_duration_guess periods f ! i = clamp_spec (f * periods ! i) (5 / 1000) (5 / 10) \<and>
      (f * periods ! i < 5 / 1000 \<longrightarrow> period_to_duration_guess periods f ! i = 5 / 1000) \<and>
      (5 / 10 < f * periods ! i \<longrightarrow> period_to_duration_guess periods f ! i = 5 / 10))"
  by (simp add: length_duration_guess duration_guess_nth clamp_spec_def)

theorem duration_guess_clamp_witness:
  "period_to_duration_guess [1 / 100, 1, 20] (5 / 100) = [5 / 1000, 5 / 100, 5 / 10] \<and>
   clamp_spec (5 / 100 * (1 / 100)) (5 / 1000) (5 / 10) = 5 / 1000 \<and>
   clamp_spec (5 / 100 * 1) (5 / 1000) (5 / 10) = 5 / 100 \<and>
   clamp_spec (5 / 100 * 20) (5 / 1000) (5 / 10) = 5 / 10"
proof -
  have "\<forall>i < 3. period_to_duration_guess [1 / 100, 1, 20] (5 / 100) ! i =
          clamp_spec (5 / 100 * [1 / 100, 1, 20] ! i) (5 / 1000) (5 / 10)"
    using duration_guess_clamp [of "[1 / 100, 1, 20]" "5 / 100"] by simp
  then show ?thesis
    by (simp add: period_to_duration_guess_def clip_def clamp_spec_def)
qed

text \<open>
  C7, as the code has it. On the period grid of a valid configuration every duration lies
  between 0.005 and 0.5 days. It is at most its period when \<open>min_period\<close> is at least
  0.005 and the duration fraction at most 1; without that it need not be.
\<close>

theorem duration_grid_bounds:
  assumes "0 < a" and "a < b" and "2 \<le> n" and "linspace a b n = Inr ps" and "i < length ps"
  shows "5 / 1000 \<le> period_to_duration_guess ps f ! i \<and>
         period_to_duration_guess ps f ! i \<le> 5 / 10 \<and>
         (5 / 1000 \<le> a \<and> f \<le> 1 \<longrightarrow> period_to_duration_guess ps f ! i \<le> ps ! i)"
proof -
  have d: "period_to_duration_guess ps f ! i = min (5 / 10) (max (f * ps ! i) (5 / 1000))"
    using assms(5) by (rule duration_guess_nth)
  have p: "a \<le> ps ! i" using assms(3,2,4,5) by (rule linspace_ge_start)
  have lo: "5 / 1000 \<le> min (5 / 10) (max (f * ps ! i) (5 / 1000 :: real))" by simp
  have hi: "min (5 / 10) (max (f * ps ! i) (5 / 1000 :: real)) \<le> 5 / 10" by simp
  have le: "min (5 / 10) (max (f * ps ! i) (5 / 1000)) \<le> ps ! i"
    if "5 / 1000 \<le> a" and "f \<le> 1"
  proof -
    have "0 \<le> ps ! i" using p assms(1) by simp
    then have "f * ps ! i \<le> 1 * ps ! i" using that(2) by (rule mult_right_mono[rotated])
    then have "max (f * ps ! i) (5 / 1000) \<le> ps ! i" using that(1) p by simp
    then show ?thesis by (rule min.coboundedI2)
  qed
  show ?thesis using lo hi le by (simp only: d) blast
qed

theorem duration_grid_bounds_witness:
  "0 < (5 / 10 :: real) \<and> (5 / 10 :: real) < 10 \<and> (2 :: int) \<le> 3 \<and>
   linspace (5 / 10) 10 3 = Inr [5 / 10, 21 / 4, 10] \<and> 2 < length [5 / 10, 21 / 4, 10 :: real] \<and>
   5 / 1000 \<le> period_to_duration_guess [5 / 10, 21 / 4, 10] (5 / 100) ! 2 \<and>
   period_to_duration_guess [5 / 10, 21 / 4, 10] (5 / 100) ! 2 \<le> 5 / 10 \<and>
   period_to_duration_guess [5 / 10, 21 / 4, 10] (5 / 100) ! 2 \<le> [5 / 10, 21 / 4, 10] ! 2"
proof -
  have g: "linspace (5 / 10) 10 3 = Inr [5 / 10, 21 / 4, 10]"
    by (simp add: linspace_def upt_rec)
  show ?thesis
    using duration_grid_bounds [of "5 / 10" 10 3 "[5 / 10, 21 / 4, 10]" 2 "5 / 100"] g by simp
qed

text \<open>
  With a smallest period of 0.001 days the first duration is 0.005 days, five times its
  period.
\<close>

theorem duration_above_period_counterexample:
  "0 < (1 / 1000 :: real) \<and> (1 / 1000 :: real) < 1 \<and> (2 :: int) \<le> 2 \<and>
   linspace (1 / 1000) 1 2 = Inr [1 / 1000, 1] \<and>
   period_to_duration_guess [1 / 1000, 1] (5 / 100) = [5 / 1000, 5 / 100] \<and>
   [1 / 1000, 1 :: real] ! 0 < period_to_duration_guess [1 / 1000, 1] (5 / 100) ! 0"
  by (simp add: linspace_def period_to_duration_guess_def clip_def upt_rec)

text \<open>
  C8, as the code has it. \<open>run_bls\<close> validates neither the period range nor the count:
  given at least ten valid samples, any \<open>min_period\<close> and \<open>max_period\<close> and any
  \<open>n_periods\<close> that is not negative yield grids of \<open>n_periods\<close> values, which go to the
  BLS primitive. Only a negative \<open>n_periods\<close> raises, the ValueError of \<open>np.linspace\<close>,
  before the primitive is called.
\<close>

theorem run_bls_grid_unvalidated:
  assumes "10 \<le> length (filter finite_sample lc)"
  shows "(n < 0 \<longrightarrow>
            run_bls bls lc a b n f w =
              (Inl (PyExc ''ValueError'' ''Number of samples must be non-negative''), w)) \<and>
         (0 \<le> n \<longrightarrow>
            (\<exists>ps ds. length ps = nat n \<and> length ds = nat n \<and>
               fst (run_bls bls lc a b n f w) =
                 (case bls (fst (run_bls_filter lc)) (snd (run_bls_filter lc)) ps ds of
                    Inl e \<Rightarrow> Inl e
                  | Inr r \<Rightarrow> Inr (ps, ds, r))))"
proof (intro conjI impI)
  assume "n < 0"
  then show "run_bls bls lc a b n f w =
      (Inl (PyExc ''ValueError'' ''Number of samples must be non-negative''), w)"
    using assms by (simp add: run_bls_def run_bls_filter_eq linspace_negative)
next
  assume "0 \<le> n"
  then obtain ps where ps: "linspace a b n = Inr ps" "length ps = nat n"
    using linspace_length [of n a b] by blast
  have "fst (run_bls bls lc a b n f w) =
          (case bls (fst (run_bls_filter lc)) (snd (run_bls_filter lc)) ps
                  (period_to_duration_guess ps f) of
             Inl e \<Rightarrow> Inl e
           | Inr r \<Rightarrow> Inr (ps, period_to_duration_guess ps f, r))"
    by (simp add: run_bls_enough [OF assms ps(1)])
  moreover have "length (period_to_duration_guess ps f) = nat n"
    using ps(2) by (simp add: length_duration_guess)
  ultimately show "\<exists>ps ds. length ps = nat n \<and> length ds = nat n \<and>
      fst (run_bls bls lc a b n f w) =
        (case bls (fst (run_bls_filter lc)) (snd (run_bls_filter lc)) ps ds of
           Inl e \<Rightarrow> Inl e
         | Inr r \<Rightarrow> Inr (ps, ds, r))"
    using ps(2) by blast
qed

theorem run_bls_grid_unvalidated_witness:
  "10 \<le> length (filter finite_sample ten_samples) \<and>
   run_bls bls_echo ten_samples 2 1 (- 1) (5 / 100) no_effects =
     (Inl (PyExc ''ValueError'' ''Number of samples must be non-negative''), no_effects) \<and>
   (0 :: int) \<le> 3 \<and>
   fst (run_bls bls_echo ten_samples 2 1 3 (5 / 100) no_effects) =
     Inr ([2, 3 / 2, 1], [1 / 10, 3 / 40, 1 / 20], \<lparr>power = [Fin 2, Fin (3 / 2), Fin 1]\<rparr>)"
proof -
  have g: "linspace 2 1 3 = Inr [2, 3 / 2, 1]"
    by (simp add: linspace_def upt_rec)
  show ?thesis
    using run_bls_grid_unvalidated [of ten_samples "- 1" bls_echo 2 1 "5 / 100" no_effects]
      run_bls_grid_unvalidated [of ten_samples 3 bls_echo 2 1 "5 / 100" no_effects]
    by (simp add: run_bls_ten [OF g] filter_ten_samples length_ten_samples
        period_to_duration_guess_def clip_def bls_echo_def)
qed

text \<open>
  A descending range, a range that starts below zero and a grid of one period are all
  searched without an error.
\<close>

theorem run_bls_malformed_grid_counterexample:
  "fst (run_bls bls_echo ten_samples 2 1 3 (5 / 100) no_effects) =
     Inr ([2, 3 / 2, 1], [1 / 10, 3 / 40, 1 / 20], \<lparr>power = [Fin 2, Fin (3 / 2), Fin 1]\<rparr>) \<and>
   fst (run_bls bls_echo ten_samples (- 1) 1 3 (5 / 100) no_effects) =
     Inr ([- 1, 0, 1], [5 / 1000, 5 / 1000, 5 / 100], \<lparr>power = [Fin (- 1), Fin 0, Fin 1]\<rparr>) \<and>
   fst (run_bls bls_echo ten_samples 1 2 1 (5 / 100) no_effects) =
     Inr ([1], [5 / 100], \<lparr>power = [Fin 1]\<rparr>)"
proof -
  have 1: "linspace 2 1 3 = Inr [2, 3 / 2, 1]"
    and 2: "linspace (- 1) 1 3 = Inr [- 1, 0, 1]"
    and 3: "linspace 1 2 1 = Inr [1]"
    by (simp_all add: linspace_def upt_rec)
  show ?thesis
    by (simp add: run_bls_ten [OF 1] run_bls_ten [OF 2] run_bls_ten [OF 3]
        period_to_duration_guess_def clip_def bls_echo_def)
qed

subsection \<open>A failing BLS primitive\<close>

text \<open>
  C9, as the code has it. When the BLS primitive raises, \<open>run_bls\<close> raises that very
  exception, unchanged; the primitive has been called once, and no result is returned.
\<close>

theorem run_bls_primitive_failure:
  assumes "10 \<le> length (filter finite_sample lc)" and "linspace a b n = Inr ps"
    and "bls (fst (run_bls_filter lc)) (snd (run_bls_filter lc)) ps
           (period_to_duration_guess ps f) = Inl e"
  shows "run_bls bls lc a b n f w =
           (Inl e,
            w\<lparr>bls_invocations := bls_invocations w @
                 [(fst (run_bls_filter lc), snd (run_bls_filter lc), ps,
                   period_to_duration_guess ps f)]\<rparr>)"
  using assms(3) by (simp add: run_bls_enough [OF assms(1,2)])

theorem run_bls_primitive_failure_witness:
  "10 \<le> length (filter finite_sample ten_samples) \<and>
   linspace (5 / 10) 10 3 = Inr [5 / 10, 21 / 4, 10] \<and>
   run_bls bls_failing ten_samples (5 / 10) 10 3 (5 / 100) no_effects =
     (Inl (PyExc ''ValueError'' ''period must be positive''),
      \<lparr>bls_invocations =
         [(map fst ten_samples, map snd ten_samples, [5 / 10, 21 / 4, 10],
           [25 / 1000, 105 / 400, 5 / 10])],
       written = []\<rparr>)"
proof -
  have g: "linspace (5 / 10) 10 3 = Inr [5 / 10, 21 / 4, 10]"
    by (simp add: linspace_def upt_rec)
  have d: "period_to_duration_guess [5 / 10, 21 / 4, 10] (5 / 100) =
             [25 / 1000, 105 / 400, 5 / 10]"
    by (simp add: period_to_duration_guess_def clip_def)
  show ?thesis
    using run_bls_primitive_failure [of ten_samples "5 / 10" 10 3 "[5 / 10, 21 / 4, 10]" bls_failing
        "5 / 100" "PyExc ''ValueError'' ''period must be positive''" no_effects] g d
    by (simp add: filter_ten_samples length_ten_samples run_bls_filter_ten bls_failing_def
        no_effects_def)
qed

text \<open>
  A ValueError of the primitive reaches the caller as that ValueError, not as a
  SearchPrimitiveError.
\<close>

theorem run_bls_unwrapped_failure_counterexample:
  "fst (run_bls bls_failing ten_samples (5 / 10) 10 3 (5 / 100) no_effects) =
     Inl (PyExc ''ValueError'' ''period must be positive'') \<and>
   exc_class (PyExc ''ValueError'' ''period must be positive'') \<noteq> ''SearchPrimitiveError''"
proof -
  have "linspace (5 / 10) 10 3 = Inr [5 / 10, 21 / 4, 10]"
    by (simp add: linspace_def upt_rec)
  then show ?thesis by (simp add: run_bls_ten bls_failing_def)
qed

subsection \<open>The best candidate\<close>

lemma fl_le_refl: "\<not> isnan x \<Longrightarrow> fl_le x x"
  by (cases x) simp_all

lemma fl_le_total: "\<not> isnan x \<Longrightarrow> \<not> isnan y \<Longrightarrow> \<not> fl_le x y \<Longrightarrow> fl_le y x"
  by (cases x; cases y) simp_all

lemma fl_le_trans: "fl_le x y \<Longrightarrow> fl_le y z \<Longrightarrow> fl_le x z"
  by (cases x; cases y; cases z) simp_all

lemma fl_le_not_nan: "fl_le x y \<Longrightarrow> \<not> isnan x \<and> \<not> isnan y"
  by (cases x; cases y) simp_all

lemma argmax_scan_spec:
  assumes "\<not> isnan mp" and "list_all (\<lambda>x. \<not> isnan x) xs"
  shows "(argmax_scan mp mi i xs = mi \<and> list_all (\<lambda>x. fl_le x mp) xs) \<or>
         (i \<le> argmax_scan mp mi i xs \<and> \<not> fl_le (xs ! (argmax_scan mp mi i xs - i)) mp \<and>
          first_max xs (argmax_scan mp mi i xs - i))"
  using assms
proof (induction xs arbitrary: mp mi i)
  case Nil
  then show ?case by simp
next
  case (Cons x xs)
  from Cons.prems have nx: "\<not> isnan x" and nxs: "list_all (\<lambda>x. \<not> isnan x) xs" by simp_all
  show ?case
  proof (cases "fl_le x mp")
    case True
    let ?r = "argmax_scan mp mi (Suc i) xs"
    have r: "argmax_scan mp mi i (x # xs) = ?r" using True by simp
    from Cons.IH [OF Cons.prems(1) nxs, of mi "Suc i"]
    consider (keep) "?r = mi" "list_all (\<lambda>x. fl_le x mp) xs"
      | (move) "Suc i \<le> ?r" "\<not> fl_le (xs ! (?r - Suc i)) mp" "first_max xs (?r - Suc i)"
      by blast
    then show ?thesis
    proof cases
      case keep
      then show ?thesis using True r by simp
    next
      case move
      let ?k = "?r - Suc i"
      have k: "?r - i = Suc ?k" using move(1) by simp
      have nk: "\<not> isnan (xs ! ?k)"
        using move(3) nxs by (simp add: first_max_def list_all_length)
      have mpk: "fl_le mp (xs ! ?k)"
        using move(2) nk Cons.prems(1) by (simp add: fl_le_total)
      have xk: "fl_le x (xs ! ?k)" using True mpk by (rule fl_le_trans)
      have kx: "\<not> fl_le (xs ! ?k) x"
        using move(2) True fl_le_trans by blast
      have "first_max (x # xs) (Suc ?k)"
        using move(3) xk kx by (simp add: first_max_def)
      then show ?thesis using move(1,2) r k by simp
    qed
  next
    case False
    let ?r = "argmax_scan x i (Suc i) xs"
    have r: "argmax_scan mp mi i (x # xs) = ?r" using False nx by simp
    have mpx: "fl_le mp x" using False nx Cons.prems(1) by (simp add: fl_le_total)
    from Cons.IH [OF nx nxs, of i "Suc i"]
    consider (keep) "?r = i" "list_all (\<lambda>y. fl_le y x) xs"
      | (move) "Suc i \<le> ?r" "\<not> fl_le (xs ! (?r - Suc i)) x" "first_max xs (?r - Suc i)"
      by blast
    then show ?thesis
    proof cases
      case keep
      have "first_max (x # xs) 0" using keep(2) nx by (simp add: first_max_def fl_le_refl)
      then show ?thesis using keep(1) r False by simp
    next
      case move
      let ?k = "?r - Suc i"
      have k: "?r - i = Suc ?k" using move(1) by simp
      have nk: "\<not> isnan (xs ! ?k)"
        using move(3) nxs by (simp add: first_max_def list_all_length)
      have xk: "fl_le x (xs ! ?k)" using move(2) nk nx by (simp add: fl_le_total)
      have kmp: "\<not> fl_le (xs ! ?k) mp"
        using False xk fl_le_trans by blast
      have "first_max (x # xs) (Suc ?k)"
        using move(3) xk move(2) by (simp add: first_max_def)
      then show ?thesis using move(1) kmp r k by simp
    qed
  qed
qed

lemma argmax_first_max:
  assumes "a \<noteq> []" and "list_all (\<lambda>x. \<not> isnan x) a"
  shows "\<exists>r. argmax a = Inr r \<and> first_max a r"
proof (cases a)
  case Nil
  then show ?thesis using assms(1) by simp
next
  case (Cons x xs)
  from assms(2) Cons have nx: "\<not> isnan x" and nxs: "list_all (\<lambda>x. \<not> isnan x) xs" by simp_all
  let ?r = "argmax_scan x 0 1 xs"
  have am: "argmax a = Inr ?r" using Cons nx by (simp add: argmax_def)
  from argmax_scan_spec [OF nx nxs, of 0 1]
  consider (keep) "?r = 0" "list_all (\<lambda>y. fl_le y x) xs"
    | (move) "1 \<le> ?r" "\<not> fl_le (xs ! (?r - 1)) x" "first_max xs (?r - 1)"
    by auto
  then have "first_max a ?r"
  proof cases
    case keep
    then show ?thesis using Cons nx by (simp add: first_max_def fl_le_refl)
  next
    case move
    have r: "?r = Suc (?r - 1)" using move(1) by simp
    have nk: "\<not> isnan (xs ! (?r - 1))"
      using move(3) nxs by (simp add: first_max_def list_all_length)
    have xk: "fl_le x (xs ! (?r - 1))" using move(2) nk nx by (simp add: fl_le_total)
    have "first_max (x # xs) (Suc (?r - 1))"
      using move(3) xk move(2) by (simp add: first_max_def)
    then show ?thesis using r Cons by simp
  qed
  then show ?thesis using am by blast
qed

lemma nanargmax_empty:
  "nanargmax [] = Inl (PyExc ''ValueError'' ''attempt to get argmax of an empty sequence'')"
  by (simp add: nanargmax_def replace_nan_def argmax_def)

lemma nanargmax_all_nan:
  assumes "pw \<noteq> []" and "list_all isnan pw"
  shows "nanargmax pw = Inl (PyExc ''ValueError'' ''All-NaN slice encountered'')"
  using assms by (simp add: nanargmax_def replace_nan_def list_all_iff)

lemma nanargmax_first_max:
  assumes "pw \<noteq> []" and "\<not> list_all isnan pw"
  shows "\<exists>r. nanargmax pw = Inr r \<and>
              first_max (map (\<lambda>x. if isnan x then NInf else x) pw) r"
proof -
  let ?a = "map (\<lambda>x. if isnan x then NInf else x) pw"
  have "nanargmax pw = argmax ?a"
    using assms(2) by (auto simp add: nanargmax_def replace_nan_def list_all_iff)
  moreover have "?a \<noteq> []" using assms(1) by simp
  moreover have "list_all (\<lambda>x. \<not> isnan x) ?a" by (induction pw) simp_all
  ultimately show ?thesis using argmax_first_max [of ?a] by simp
qed

lemma first_max_nth:
  assumes "first_max a r"
  shows "r < length a" and "\<And>j. j < length a \<Longrightarrow> fl_le (a ! j) (a ! r)"
    and "\<And>j. j < r \<Longrightarrow> \<not> fl_le (a ! r) (a ! j)"
  using assms by (simp_all add: first_max_def list_all_length)

text \<open>
  C3, as the code has it. For periods and powers of one length with at least one finite
  power, \<open>pick_best\<close> returns the period and the power at the first index of greatest
  power, where NaN powers are ignored; an infinite power is not ignored, so that a power
  of \<open>+inf\<close> is the greatest.
\<close>

theorem pick_best_first_maximum:
  assumes "length periods = length pw" and "list_ex isfinite pw"
  shows "\<exists>i < length pw.
           pick_best periods pw = Inr (periods ! i, pw ! i) \<and> \<not> isnan (pw ! i) \<and>
           (\<forall>j < length pw. \<not> isnan (pw ! j) \<longrightarrow> fl_le (pw ! j) (pw ! i)) \<and>
           (\<forall>j < i. \<not> fl_le (pw ! i) (pw ! j))"
proof -
  let ?a = "map (\<lambda>x. if isnan x then NInf else x) pw"
  from assms(2) obtain k where k: "k < length pw" "isfinite (pw ! k)"
    by (auto simp: list_ex_length)
  have ne: "pw \<noteq> []" using k(1) by auto
  have "\<not> isnan (pw ! k)" using k(2) by (cases "pw ! k") simp_all
  then have some: "\<not> list_all isnan pw" using k(1) by (auto simp: list_all_length)
  from nanargmax_first_max [OF ne some] obtain r
    where r: "nanargmax pw = Inr r" and fm: "first_max ?a r" by blast
  have rlen: "r < length pw" using first_max_nth(1) [OF fm] by simp
  have ge: "fl_le (?a ! j) (?a ! r)" if "j < length pw" for j
    using first_max_nth(2) [OF fm, of j] that by simp
  have lt: "\<not> fl_le (?a ! r) (?a ! j)" if "j < r" for j
    using first_max_nth(3) [OF fm that] .
  have "fl_le (pw ! k) (?a ! r)" using ge [OF k(1)] k \<open>\<not> isnan (pw ! k)\<close> by simp
  then have "?a ! r \<noteq> NInf" using k(2) by (cases "pw ! k") auto
  then have nr: "\<not> isnan (pw ! r)" using rlen by auto
  then have ar: "?a ! r = pw ! r" using rlen by simp
  have 1: "pick_best periods pw = Inr (periods ! r, pw ! r)"
    using r rlen assms(1) by (simp add: pick_best_def)
  have 2: "\<forall>j < length pw. \<not> isnan (pw ! j) \<longrightarrow> fl_le (pw ! j) (pw ! r)"
  proof (intro allI impI)
    fix j assume j: "j < length pw" "\<not> isnan (pw ! j)"
    then show "fl_le (pw ! j) (pw ! r)" using ge [OF j(1)] ar by simp
  qed
  have 3: "\<forall>j < r. \<not> fl_le (pw ! r) (pw ! j)"
  proof (intro allI impI)
    fix j assume j: "j < r"
    then have jl: "j < length pw" using rlen by simp
    show "\<not> fl_le (pw ! r) (pw ! j)"
    proof (cases "isnan (pw ! j)")
      case True
      then show ?thesis using fl_le_not_nan by blast
    next
      case False
      then show ?thesis using lt [OF j] ar jl by simp
    qed
  qed
  show ?thesis using rlen 1 nr 2 3 by blast
qed

theorem pick_best_first_maximum_witness:
  "length [1, 2, 3 :: real] = length [Fin (5 / 10), Fin (9 / 10), Fin (9 / 10)] \<and>
   list_ex isfinite [Fin (5 / 10), Fin (9 / 10), Fin (9 / 10)] \<and>
   pick_best [1, 2, 3 :: real] [Fin (5 / 10), Fin (9 / 10), Fin (9 / 10)] = Inr (2, Fin (9 / 10))"
  using pick_best_first_maximum [of "[1, 2, 3 :: real]" "[Fin (5 / 10), Fin (9 / 10), Fin (9 / 10)]"]
  by (simp add: pick_best_def nanargmax_def replace_nan_def argmax_def)

text \<open>
  With the powers 0.5 and \<open>+inf\<close> the code picks the second period; picking among the
  finite powers only gives the first.
\<close>

theorem pick_best_infinite_power_counterexample:
  "pick_best [1, 2 :: real] [Fin (5 / 10), PInf] = Inr (2, PInf) \<and>
   pickBest_spec [1, 2 :: real] [Fin (5 / 10), PInf] = Inr (1, Fin (5 / 10))"
  by (simp add: pick_best_def nanargmax_def replace_nan_def argmax_def pickBest_spec_def
      upt_rec)

text \<open>
  C5, as the code has it. \<open>pick_best\<close> raises a ValueError on empty powers and another on
  powers that are all NaN, and returns no candidate then. Powers that are not all NaN,
  even if none is finite, give the period and power at some index.
\<close>

theorem pick_best_failures:
  "(pw = [] \<longrightarrow>
      pick_best periods pw =
        Inl (PyExc ''ValueError'' ''attempt to get argmax of an empty sequence'')) \<and>
   (pw \<noteq> [] \<and> list_all isnan pw \<longrightarrow>
      pick_best periods pw = Inl (PyExc ''ValueError'' ''All-NaN slice encountered'')) \<and>
   (pw \<noteq> [] \<and> \<not> list_all isnan pw \<and> length periods = length pw \<longrightarrow>
      (\<exists>i < length pw. pick_best periods pw = Inr (periods ! i, pw ! i)))"
proof (intro conjI impI)
  assume "pw = []"
  then show "pick_best periods pw =
      Inl (PyExc ''ValueError'' ''attempt to get argmax of an empty sequence'')"
    by (simp add: pick_best_def nanargmax_empty)
next
  assume "pw \<noteq> [] \<and> list_all isnan pw"
  then show "pick_best periods pw = Inl (PyExc ''ValueError'' ''All-NaN slice encountered'')"
    by (simp add: pick_best_def nanargmax_all_nan)
next
  assume a: "pw \<noteq> [] \<and> \<not> list_all isnan pw \<and> length periods = length pw"
  then obtain r where r: "nanargmax pw = Inr r"
      and fm: "first_max (map (\<lambda>x. if isnan x then NInf else x) pw) r"
    using nanargmax_first_max [of pw] by blast
  have "r < length pw" using first_max_nth(1) [OF fm] by simp
  then show "\<exists>i < length pw. pick_best periods pw = Inr (periods ! i, pw ! i)"
    using r a by (auto simp: pick_best_def)
qed

theorem pick_best_failures_witness:
  "pick_best ([] :: real list) [] =
     Inl (PyExc ''ValueError'' ''attempt to get argmax of an empty sequence'') \<and>
   pick_best [1, 2 :: real] [NaN, NaN] =
     Inl (PyExc ''ValueError'' ''All-NaN slice encountered'') \<and>
   length [1, 2 :: real] = length [NInf, PInf] \<and>
   pick_best [1, 2 :: real] [NInf, PInf] = Inr (2, PInf)"
  using pick_best_failures [of "[]" "[] :: real list"] pick_best_failures [of "[NaN, NaN]" "[1, 2 :: real]"]
    pick_best_failures [of "[NInf, PInf]" "[1, 2 :: real]"]
  by (simp add: pick_best_def nanargmax_def replace_nan_def argmax_def)

text \<open>
  On the single power \<open>+inf\<close> the code returns a candidate; by the specification's words
  it is an AllNonFiniteError.
\<close>

theorem pick_best_all_infinite_counterexample:
  "pick_best [1 :: real] [PInf] = Inr (1, PInf) \<and>
   pickBest_spec [1 :: real] [PInf] = Inl (PyExc ''AllNonFiniteError'' [])"
  by (simp add: pick_best_def nanargmax_def replace_nan_def argmax_def pickBest_spec_def)

end
